theory Spec2Isabelle
  imports Complex_Main "HOL-Library.Word"
begin

section \<open>SceneManager.cpp: the data model\<close>

text \<open>
  The scene manager of the CS-330 final scene keeps two registries: a fixed array of
  sixteen texture entries with a count of the loaded ones, and a growable vector of
  materials. Its methods talk to three collaborators that are not part of the file: the
  shader manager (setters of uniforms), OpenGL and the stb image loader.

  A C++ \<^verbatim>\<open>float\<close> is written as the real number its literal denotes: the registries
  only store and copy these values, they never compute with them.
\<close>

datatype vec3 = vec3 real real real

datatype vec4 = vec4 real real real real

text \<open>A \<^verbatim>\<open>glm::mat4\<close> is four columns of four floats.\<close>

datatype mat4 = mat4 vec4 vec4 vec4 vec4

text \<open>
  The two structs of the header. \<^verbatim>\<open>ID\<close> receives a \<^verbatim>\<open>GLuint\<close> and its address is handed
  to \<^verbatim>\<open>glGenTextures\<close>, so it is an unsigned 32-bit value.
\<close>

record TEXTURE_INFO =
  tag :: string
  ID :: "32 word"

record OBJECT_MATERIAL =
  ambientColor :: vec3
  ambientStrength :: real
  diffuseColor :: vec3
  specularColor :: vec3
  shininess :: real
  tag :: string

text \<open>
  The shader manager is seen through the setter calls it receives, in the order in which
  they arrive.
\<close>

datatype shader_call =
    setIntValue string int
  | setFloatValue string real
  | setVec3Value string vec3
  | setMat4Value string mat4
  | setSampler2DValue string int

text \<open>
  What the process does to the outside world besides the shader manager: lines written to
  \<^verbatim>\<open>std::cout\<close> (each \<^verbatim>\<open><<\<close> operand kept as an item), calls of the image loader and calls of
  OpenGL. \<^verbatim>\<open>glGenTextures\<close> carries the name OpenGL handed out, \<^verbatim>\<open>stbi_load\<close> the file it was
  asked for. \<^verbatim>\<open>glDeleteTextures\<close> is the call of OpenGL that frees a texture; the source never
  makes it.
\<close>

datatype cout_item = Str string | Num int | Endl

datatype gl_enum =
    GL_TEXTURE_2D
  | GL_TEXTURE_WRAP_S | GL_TEXTURE_WRAP_T | GL_TEXTURE_MIN_FILTER | GL_TEXTURE_MAG_FILTER
  | GL_REPEAT | GL_LINEAR
  | GL_RGB8 | GL_RGBA8 | GL_RGB | GL_RGBA
  | GL_UNSIGNED_BYTE

datatype event =
    cout "cout_item list"
  | stbi_set_flip_vertically_on_load bool
  | stbi_load string
  | stbi_image_free nat
  | glGenTextures "32 word"
  | glDeleteTextures "32 word"
  | glBindTexture gl_enum "32 word"
  | glTexParameteri gl_enum gl_enum gl_enum
  | glTexImage2D gl_enum int gl_enum int int int gl_enum gl_enum nat
  | glGenerateMipmap gl_enum
  | glActiveTexture int

text \<open>
  What \<^verbatim>\<open>stbi_load\<close> gives back when it can decode the file: the address of the pixel
  buffer and the three numbers it stores through its pointer arguments. A null result is
  \<open>None\<close>.
\<close>

record image =
  pixels :: nat
  width :: int
  height :: int
  colorChannels :: int

text \<open>
  The members of the class (the meshes are not modelled: no method below reads them), and
  beside them the history of events. A null \<^verbatim>\<open>m_pShaderManager\<close> is \<open>None\<close>.
\<close>

record SceneManager =
  m_pShaderManager :: "shader_call list option"
  m_textureIDs :: "TEXTURE_INFO list"
  m_loadedTextures :: int
  m_objectMaterials :: "OBJECT_MATERIAL list"
  events :: "event list"

text \<open>
  C++ leaves two things undefined that the methods can run into: indexing the texture
  array outside its bounds and calling a setter through a null shader manager. Both are
  results of the model.
\<close>

datatype undefined_behaviour = OutOfBounds int | NullDereference

definition in_bounds :: "'a list \<Rightarrow> int \<Rightarrow> bool" where
  "in_bounds xs i = (0 \<le> i \<and> nat i < length xs)"

definition emit :: "event list \<Rightarrow> SceneManager \<Rightarrow> SceneManager" where
  "emit es s = s\<lparr>events := events s @ es\<rparr>"

text \<open>The first texture unit, \<^verbatim>\<open>0x84C0\<close> in the headers of OpenGL.\<close>

definition GL_TEXTURE0 :: int where
  "GL_TEXTURE0 = 33984"

section \<open>The constructor\<close>

definition SceneManager_ctor :: "shader_call list option \<Rightarrow> SceneManager" where
  "SceneManager_ctor pShaderManager =
     \<lparr>m_pShaderManager = pShaderManager,
      m_textureIDs = replicate 16 \<lparr>TEXTURE_INFO.tag = ''/0'', ID = - 1\<rparr>,
      m_loadedTextures = 0,
      m_objectMaterials = [],
      events = []\<rparr>"

section \<open>The texture registry\<close>

text \<open>
  \<^verbatim>\<open>CreateGLTexture\<close>. The answers of the two collaborators are arguments: \<open>loaded\<close> is what
  \<^verbatim>\<open>stbi_load\<close> returns for the file and \<open>textureID\<close> the name \<^verbatim>\<open>glGenTextures\<close> hands out.
  The branch for an unsupported channel count returns at once. The registration at the
  end writes \<^verbatim>\<open>m_textureIDs[m_loadedTextures]\<close> with no test of the index.
\<close>

definition CreateGLTexture ::
  "image option \<Rightarrow> 32 word \<Rightarrow> string \<Rightarrow> string \<Rightarrow> SceneManager
     \<Rightarrow> undefined_behaviour + bool \<times> SceneManager"
where
  "CreateGLTexture loaded textureID filename tg s =
     (let s1 = emit [stbi_set_flip_vertically_on_load True, stbi_load filename] s in
      case loaded of
        Some img \<Rightarrow>
          (let s2 = emit
                 [cout [Str ''Successfully loaded image:'', Str filename,
                        Str '', width:'', Num (width img),
                        Str '', height:'', Num (height img),
                        Str '', channels:'', Num (colorChannels img), Endl],
                  glGenTextures textureID,
                  glBindTexture GL_TEXTURE_2D textureID,
                  glTexParameteri GL_TEXTURE_2D GL_TEXTURE_WRAP_S GL_REPEAT,
                  glTexParameteri GL_TEXTURE_2D GL_TEXTURE_WRAP_T GL_REPEAT,
                  glTexParameteri GL_TEXTURE_2D GL_TEXTURE_MIN_FILTER GL_LINEAR,
                  glTexParameteri GL_TEXTURE_2D GL_TEXTURE_MAG_FILTER GL_LINEAR] s1;
               upload = (\<lambda>internal format.
                 (let s3 = emit
                        [glTexImage2D GL_TEXTURE_2D 0 internal (width img) (height img) 0
                           format GL_UNSIGNED_BYTE (pixels img),
                         glGenerateMipmap GL_TEXTURE_2D,
                         stbi_image_free (pixels img),
                         glBindTexture GL_TEXTURE_2D 0] s2
                  in if in_bounds (m_textureIDs s3) (m_loadedTextures s3) then
                       Inr (True,
                         s3\<lparr>m_textureIDs := (m_textureIDs s3)
                               [nat (m_loadedTextures s3) :=
                                  \<lparr>TEXTURE_INFO.tag = tg, ID = textureID\<rparr>],
                            m_loadedTextures := m_loadedTextures s3 + 1\<rparr>)
                     else Inl (OutOfBounds (m_loadedTextures s3))))
           in if colorChannels img = 3 then upload GL_RGB8 GL_RGB
              else if colorChannels img = 4 then upload GL_RGBA8 GL_RGBA
              else
                Inr (False,
                  emit [cout [Str ''Not implemented to handle image with '',
                              Num (colorChannels img), Str '' channels'', Endl]] s2))
      | None \<Rightarrow>
          Inr (False, emit [cout [Str ''Could not load image:'', Str filename, Endl]] s1))"

text \<open>
  A run of \<^verbatim>\<open>CreateGLTexture\<close> calls whose results are dropped, as \<^verbatim>\<open>LoadSceneTextures\<close>
  makes them. A call is the file name, the tag and the two answers of the collaborators.
\<close>

type_synonym load_call = "string \<times> string \<times> image option \<times> 32 word"

definition load_tag :: "load_call \<Rightarrow> string" where
  "load_tag c = (case c of (filename, tg, loaded, textureID) \<Rightarrow> tg)"

definition load_ID :: "load_call \<Rightarrow> 32 word" where
  "load_ID c = (case c of (filename, tg, loaded, textureID) \<Rightarrow> textureID)"

text \<open>The calls that decode a file with three or four channels.\<close>

definition load_succeeds :: "load_call \<Rightarrow> bool" where
  "load_succeeds c =
     (case c of (filename, tg, loaded, textureID) \<Rightarrow>
        (case loaded of
           None \<Rightarrow> False
         | Some img \<Rightarrow> colorChannels img = 3 \<or> colorChannels img = 4))"

fun CreateGLTextures :: "load_call list \<Rightarrow> SceneManager \<Rightarrow> undefined_behaviour + SceneManager" where
  "CreateGLTextures [] s = Inr s"
| "CreateGLTextures ((filename, tg, loaded, textureID) # cs) s =
     (case CreateGLTexture loaded textureID filename tg s of
        Inl e \<Rightarrow> Inl e
      | Inr (bReturn, s') \<Rightarrow> CreateGLTextures cs s')"

text \<open>\<^verbatim>\<open>BindGLTextures\<close>: one texture unit per loaded entry, counting up from unit 0.\<close>

function BindGLTextures_loop :: "int \<Rightarrow> SceneManager \<Rightarrow> undefined_behaviour + SceneManager" where
  "BindGLTextures_loop i s =
     (if i < m_loadedTextures s then
        (if in_bounds (m_textureIDs s) i then
           BindGLTextures_loop (i + 1)
             (emit [glActiveTexture (GL_TEXTURE0 + i),
                    glBindTexture GL_TEXTURE_2D (ID (m_textureIDs s ! nat i))] s)
         else Inl (OutOfBounds i))
      else Inr s)"
  by pat_completeness auto
termination
  by (relation "measure (\<lambda>(i, s). nat (m_loadedTextures s - i))") (auto simp: emit_def)

definition BindGLTextures :: "SceneManager \<Rightarrow> undefined_behaviour + SceneManager" where
  "BindGLTextures s = BindGLTextures_loop 0 s"

text \<open>
  \<^verbatim>\<open>DestroyGLTextures\<close> calls \<^verbatim>\<open>glGenTextures\<close> on the address of each loaded entry's
  \<^verbatim>\<open>ID\<close>: OpenGL hands out a new name, \<open>names i\<close> in round \<open>i\<close>, and stores it there.
\<close>

function DestroyGLTextures_loop ::
  "(int \<Rightarrow> 32 word) \<Rightarrow> int \<Rightarrow> SceneManager \<Rightarrow> undefined_behaviour + SceneManager"
where
  "DestroyGLTextures_loop names i s =
     (if i < m_loadedTextures s then
        (if in_bounds (m_textureIDs s) i then
           DestroyGLTextures_loop names (i + 1)
             (emit [glGenTextures (names i)]
                (s\<lparr>m_textureIDs := (m_textureIDs s)
                      [nat i := (m_textureIDs s ! nat i)\<lparr>ID := names i\<rparr>]\<rparr>))
         else Inl (OutOfBounds i))
      else Inr s)"
  by pat_completeness auto
termination
  by (relation "measure (\<lambda>(names, i, s). nat (m_loadedTextures s - i))") (auto simp: emit_def)

definition DestroyGLTextures ::
  "(int \<Rightarrow> 32 word) \<Rightarrow> SceneManager \<Rightarrow> undefined_behaviour + SceneManager"
where
  "DestroyGLTextures names s = DestroyGLTextures_loop names 0 s"

text \<open>
  The two lookups scan the first \<^verbatim>\<open>m_loadedTextures\<close> entries and stop at the first tag
  that is equal. \<^verbatim>\<open>FindTextureID\<close> returns the unsigned \<^verbatim>\<open>ID\<close> as an \<^verbatim>\<open>int\<close>.
\<close>

function FindTextureID_loop ::
  "SceneManager \<Rightarrow> string \<Rightarrow> int \<Rightarrow> int \<Rightarrow> bool \<Rightarrow> undefined_behaviour + int"
where
  "FindTextureID_loop s tg textureID index bFound =
     (if index < m_loadedTextures s \<and> bFound = False then
        (if in_bounds (m_textureIDs s) index then
           (if TEXTURE_INFO.tag (m_textureIDs s ! nat index) = tg then
              FindTextureID_loop s tg (sint (ID (m_textureIDs s ! nat index))) index True
            else FindTextureID_loop s tg textureID (index + 1) bFound)
         else Inl (OutOfBounds index))
      else Inr textureID)"
  by pat_completeness auto
termination
  by (relation "measure (\<lambda>(s, tg, textureID, index, bFound).
        2 * nat (m_loadedTextures s - index) + (if bFound then 0 else 1))") auto

definition FindTextureID :: "string \<Rightarrow> SceneManager \<Rightarrow> undefined_behaviour + int" where
  "FindTextureID tg s = FindTextureID_loop s tg (- 1) 0 False"

function FindTextureSlot_loop ::
  "SceneManager \<Rightarrow> string \<Rightarrow> int \<Rightarrow> int \<Rightarrow> bool \<Rightarrow> undefined_behaviour + int"
where
  "FindTextureSlot_loop s tg textureSlot index bFound =
     (if index < m_loadedTextures s \<and> bFound = False then
        (if in_bounds (m_textureIDs s) index then
           (if TEXTURE_INFO.tag (m_textureIDs s ! nat index) = tg then
              FindTextureSlot_loop s tg index index True
            else FindTextureSlot_loop s tg textureSlot (index + 1) bFound)
         else Inl (OutOfBounds index))
      else Inr textureSlot)"
  by pat_completeness auto
termination
  by (relation "measure (\<lambda>(s, tg, textureSlot, index, bFound).
        2 * nat (m_loadedTextures s - index) + (if bFound then 0 else 1))") auto

definition FindTextureSlot :: "string \<Rightarrow> SceneManager \<Rightarrow> undefined_behaviour + int" where
  "FindTextureSlot tg s = FindTextureSlot_loop s tg (- 1) 0 False"

section \<open>Setting the shader's state\<close>

text \<open>
  The functions of GLM that \<^verbatim>\<open>SetTransformations\<close> calls are not part of the file. They
  are taken as they come: \<open>glm_mul\<close> is the product of two matrices.
\<close>

record glm =
  glm_scale :: "vec3 \<Rightarrow> mat4"
  glm_rotate :: "real \<Rightarrow> vec3 \<Rightarrow> mat4"
  glm_translate :: "vec3 \<Rightarrow> mat4"
  glm_radians :: "real \<Rightarrow> real"
  glm_mul :: "mat4 \<Rightarrow> mat4 \<Rightarrow> mat4"

definition SetTransformations ::
  "glm \<Rightarrow> vec3 \<Rightarrow> real \<Rightarrow> real \<Rightarrow> real \<Rightarrow> vec3 \<Rightarrow> SceneManager \<Rightarrow> SceneManager"
where
  "SetTransformations G scaleXYZ XrotationDegrees YrotationDegrees ZrotationDegrees positionXYZ s =
     (let scale = glm_scale G scaleXYZ;
          rotationX = glm_rotate G (glm_radians G XrotationDegrees) (vec3 1 0 0);
          rotationY = glm_rotate G (glm_radians G YrotationDegrees) (vec3 0 1 0);
          rotationZ = glm_rotate G (glm_radians G ZrotationDegrees) (vec3 0 0 1);
          translation = glm_translate G positionXYZ;
          modelView =
            glm_mul G (glm_mul G (glm_mul G (glm_mul G translation rotationX) rotationY) rotationZ)
              scale
      in case m_pShaderManager s of
           None \<Rightarrow> s
         | Some sh \<Rightarrow> s\<lparr>m_pShaderManager := Some (sh @ [setMat4Value ''model'' modelView])\<rparr>)"

text \<open>
  \<^verbatim>\<open>SetShaderTexture\<close> passes \<^verbatim>\<open>true\<close> to \<^verbatim>\<open>setIntValue\<close>, which takes an \<^verbatim>\<open>int\<close>: the value 1.
\<close>

definition SetShaderTexture :: "string \<Rightarrow> SceneManager \<Rightarrow> undefined_behaviour + SceneManager" where
  "SetShaderTexture textureTag s =
     (case m_pShaderManager s of
        None \<Rightarrow> Inr s
      | Some sh \<Rightarrow>
          (case FindTextureSlot textureTag s of
             Inl e \<Rightarrow> Inl e
           | Inr textureID \<Rightarrow>
               Inr (s\<lparr>m_pShaderManager := Some (sh @
                 [setIntValue ''bUseTexture'' 1,
                  setSampler2DValue ''objectTexture'' textureID])\<rparr>)))"

section \<open>The material registry\<close>

text \<open>
  The loop of \<^verbatim>\<open>FindMaterial\<close>: it stops at the first entry whose tag equals the one asked
  for, copies five fields of that entry into the caller's material and leaves the tag of
  the caller's material alone. The index is an \<^verbatim>\<open>int\<close> that starts at 0 and stays below the
  vector's size; it is a natural number here, which is the same for every vector of fewer
  than \<open>2^31\<close> materials.
\<close>

function FindMaterial_loop ::
  "OBJECT_MATERIAL list \<Rightarrow> string \<Rightarrow> nat \<Rightarrow> bool \<Rightarrow> OBJECT_MATERIAL \<Rightarrow> nat \<times> bool \<times> OBJECT_MATERIAL"
where
  "FindMaterial_loop ms tg index bFound material =
     (if index < length ms \<and> bFound = False then
        (if OBJECT_MATERIAL.tag (ms ! index) = tg then
           FindMaterial_loop ms tg index True
             (material\<lparr>ambientColor := ambientColor (ms ! index),
                       ambientStrength := ambientStrength (ms ! index),
                       diffuseColor := diffuseColor (ms ! index),
                       specularColor := specularColor (ms ! index),
                       shininess := shininess (ms ! index)\<rparr>)
         else FindMaterial_loop ms tg (index + 1) bFound material)
      else (index, bFound, material))"
  by pat_completeness auto
termination
  by (relation "measure (\<lambda>(ms, tg, index, bFound, material).
        2 * (length ms - index) + (if bFound then 0 else 1))") auto

text \<open>
  \<^verbatim>\<open>FindMaterial\<close> returns false for an empty vector and true after the loop, whatever the
  loop found: the flag \<^verbatim>\<open>bFound\<close> is not what it returns.
\<close>

definition FindMaterial :: "string \<Rightarrow> OBJECT_MATERIAL \<Rightarrow> SceneManager \<Rightarrow> bool \<times> OBJECT_MATERIAL" where
  "FindMaterial tg material s =
     (if length (m_objectMaterials s) = 0 then (False, material)
      else
        (case FindMaterial_loop (m_objectMaterials s) tg 0 False material of
           (index, bFound, material') \<Rightarrow> (True, material')))"

text \<open>
  \<^verbatim>\<open>SetShaderMaterial\<close> declares its material without initialising it; \<open>material\<close> is what
  that local happens to hold. The setters are called through \<^verbatim>\<open>m_pShaderManager\<close> with no
  null check.
\<close>

definition SetShaderMaterial ::
  "string \<Rightarrow> OBJECT_MATERIAL \<Rightarrow> SceneManager \<Rightarrow> undefined_behaviour + SceneManager"
where
  "SetShaderMaterial materialTag material s =
     (if length (m_objectMaterials s) > 0 then
        (case FindMaterial materialTag material s of
           (bReturn, material') \<Rightarrow>
             if bReturn = True then
               (case m_pShaderManager s of
                  None \<Rightarrow> Inl NullDereference
                | Some sh \<Rightarrow>
                    Inr (s\<lparr>m_pShaderManager := Some (sh @
                      [setVec3Value ''material.ambientColor'' (ambientColor material'),
                       setFloatValue ''material.ambientStrength'' (ambientStrength material'),
                       setVec3Value ''material.diffuseColor'' (diffuseColor material'),
                       setVec3Value ''material.specularColor'' (specularColor material'),
                       setFloatValue ''material.shininess'' (shininess material')])\<rparr>))
             else Inr s)
      else Inr s)"

text \<open>
  \<^verbatim>\<open>DefineObjectMaterials\<close> fills three locals and pushes one of them. The assignments
  under the declaration of \<^verbatim>\<open>plasticMaterial\<close> go to \<^verbatim>\<open>woodMaterial\<close>, and neither of the two
  is pushed.
\<close>

definition DefineObjectMaterials :: "SceneManager \<Rightarrow> SceneManager" where
  "DefineObjectMaterials s =
     (let goldMaterial =
            \<lparr>ambientColor = vec3 0.2 0.2 0.2,
             ambientStrength = 5.0,
             diffuseColor = vec3 0.2 0.2 0.2,
             specularColor = vec3 0.5 0.5 0.5,
             shininess = 12.0,
             tag = ''metal''\<rparr>;
          s1 = s\<lparr>m_objectMaterials := m_objectMaterials s @ [goldMaterial]\<rparr>;
          woodMaterial =
            \<lparr>ambientColor = vec3 0.1 0.1 0.1,
             ambientStrength = 2.0,
             diffuseColor = vec3 0.3 0.3 0.3,
             specularColor = vec3 0.1 0.1 0.1,
             shininess = 4.0,
             tag = ''wood''\<rparr>;
          woodMaterial' =
            woodMaterial\<lparr>ambientColor := vec3 0.1 0.1 0.1,
                         ambientStrength := 1.5,
                         diffuseColor := vec3 0.3 0.3 0.3,
                         specularColor := vec3 0.1 0.1 0.1,
                         shininess := 1.0,
                         tag := ''plastic''\<rparr>
      in s1)"

section \<open>Inputs to run the methods on\<close>

text \<open>
  An instance of the functions of GLM, in exact arithmetic, to run \<^verbatim>\<open>SetTransformations\<close>
  on. A matrix is stored by columns, and the product of two matrices applies the left one
  to each column of the right one. The rotation matrix is the one of an angle about a
  normalised axis.
\<close>

fun mat4_times_vec4 :: "mat4 \<Rightarrow> vec4 \<Rightarrow> vec4" where
  "mat4_times_vec4 (mat4 (vec4 a0 a1 a2 a3) (vec4 b0 b1 b2 b3) (vec4 c0 c1 c2 c3) (vec4 d0 d1 d2 d3))
     (vec4 x y z w) =
     vec4 (a0 * x + b0 * y + c0 * z + d0 * w)
          (a1 * x + b1 * y + c1 * z + d1 * w)
          (a2 * x + b2 * y + c2 * z + d2 * w)
          (a3 * x + b3 * y + c3 * z + d3 * w)"

fun mat4_times :: "mat4 \<Rightarrow> mat4 \<Rightarrow> mat4" where
  "mat4_times A (mat4 c0 c1 c2 c3) =
     mat4 (mat4_times_vec4 A c0) (mat4_times_vec4 A c1) (mat4_times_vec4 A c2) (mat4_times_vec4 A c3)"

fun exact_scale :: "vec3 \<Rightarrow> mat4" where
  "exact_scale (vec3 x y z) =
     mat4 (vec4 x 0 0 0) (vec4 0 y 0 0) (vec4 0 0 z 0) (vec4 0 0 0 1)"

fun exact_translate :: "vec3 \<Rightarrow> mat4" where
  "exact_translate (vec3 x y z) =
     mat4 (vec4 1 0 0 0) (vec4 0 1 0 0) (vec4 0 0 1 0) (vec4 x y z 1)"

fun exact_rotate :: "real \<Rightarrow> vec3 \<Rightarrow> mat4" where
  "exact_rotate angle (vec3 x y z) =
     (let c = cos angle; s = sin angle;
          n = sqrt (x * x + y * y + z * z);
          ax = x / n; ay = y / n; az = z / n;
          tx = (1 - c) * ax; ty = (1 - c) * ay; tz = (1 - c) * az
      in mat4 (vec4 (c + tx * ax) (tx * ay + s * az) (tx * az - s * ay) 0)
              (vec4 (ty * ax - s * az) (c + ty * ay) (ty * az + s * ax) 0)
              (vec4 (tz * ax + s * ay) (tz * ay - s * ax) (c + tz * az) 0)
              (vec4 0 0 0 1))"

definition exact_glm :: glm where
  "exact_glm =
     \<lparr>glm_scale = exact_scale,
      glm_rotate = exact_rotate,
      glm_translate = exact_translate,
      glm_radians = (\<lambda>degrees. degrees * pi / 180),
      glm_mul = mat4_times\<rparr>"

text \<open>A decoded image of three channels, and three calls of which the second finds no file.\<close>

definition rgb_image :: image where
  "rgb_image = \<lparr>pixels = 4096, width = 2, height = 2, colorChannels = 3\<rparr>"

definition three_calls :: "load_call list" where
  "three_calls =
     [(''textures/plastic.jpg'', ''plastic'', Some rgb_image, 1),
      (''textures/missing.jpg'', ''missing'', None, 0),
      (''textures/wood.jpg'', ''wood'', Some (rgb_image\<lparr>colorChannels := 4\<rparr>), 2)]"

section \<open>Notions for the statements\<close>

text \<open>The five assignments of \<^verbatim>\<open>FindMaterial\<close> at a match, from the entry \<open>m\<close> into the caller's material.\<close>

definition copy_material :: "OBJECT_MATERIAL \<Rightarrow> OBJECT_MATERIAL \<Rightarrow> OBJECT_MATERIAL" where
  "copy_material m material = material\<lparr>ambientColor := ambientColor m,
                       ambientStrength := ambientStrength m,
                       diffuseColor := diffuseColor m,
                       specularColor := specularColor m,
                       shininess := shininess m\<rparr>"

text \<open>The test of the two lookups: \<^verbatim>\<open>tag.compare(tag) == 0\<close>.\<close>

definition has_tag :: "string \<Rightarrow> TEXTURE_INFO \<Rightarrow> bool" where
  "has_tag tg e = (TEXTURE_INFO.tag e = tg)"

text \<open>The count of loaded textures lies within the array.\<close>

definition registry_ok :: "SceneManager \<Rightarrow> bool" where
  "registry_ok s = (0 \<le> m_loadedTextures s \<and> nat (m_loadedTextures s) \<le> length (m_textureIDs s))"

text \<open>The entries that the lookups and \<^verbatim>\<open>BindGLTextures\<close> look at: those below the count.\<close>

definition registered :: "SceneManager \<Rightarrow> TEXTURE_INFO list" where
  "registered s = take (nat (m_loadedTextures s)) (m_textureIDs s)"

text \<open>The entry that a successful call writes.\<close>

definition registration :: "load_call \<Rightarrow> TEXTURE_INFO" where
  "registration c = \<lparr>TEXTURE_INFO.tag = load_tag c, ID = load_ID c\<rparr>"

text \<open>The two calls of OpenGL that \<^verbatim>\<open>BindGLTextures\<close> makes for entry \<open>i\<close>.\<close>

definition bind_events :: "SceneManager \<Rightarrow> nat \<Rightarrow> event list" where
  "bind_events s i =
     [glActiveTexture (GL_TEXTURE0 + int i), glBindTexture GL_TEXTURE_2D (ID (m_textureIDs s ! i))]"

text \<open>The loops are unfolded one round at a time.\<close>

declare FindMaterial_loop.simps [simp del] BindGLTextures_loop.simps [simp del]
  DestroyGLTextures_loop.simps [simp del] FindTextureID_loop.simps [simp del]
  FindTextureSlot_loop.simps [simp del]

section \<open>The material registry: what the lookup computes\<close>

lemma FindMaterial_loop_found:
  "FindMaterial_loop ms tg index True material = (index, True, material)"
  by (subst FindMaterial_loop.simps) simp

lemma FindMaterial_loop_end:
  "length ms \<le> index \<Longrightarrow> FindMaterial_loop ms tg index bFound material = (index, bFound, material)"
  by (subst FindMaterial_loop.simps) simp

lemma FindMaterial_loop_match:
  "index < length ms \<Longrightarrow> OBJECT_MATERIAL.tag (ms ! index) = tg \<Longrightarrow>
   FindMaterial_loop ms tg index False material = (index, True, copy_material (ms ! index) material)"
  by (subst FindMaterial_loop.simps) (simp add: FindMaterial_loop_found copy_material_def)

lemma FindMaterial_loop_next:
  "index < length ms \<Longrightarrow> OBJECT_MATERIAL.tag (ms ! index) \<noteq> tg \<Longrightarrow>
   FindMaterial_loop ms tg index False material = FindMaterial_loop ms tg (Suc index) False material"
  by (subst FindMaterial_loop.simps) simp

lemma FindMaterial_loop_scan:
  "index \<le> length ms \<Longrightarrow>
   snd (snd (FindMaterial_loop ms tg index False material)) =
     (case find (\<lambda>m. OBJECT_MATERIAL.tag m = tg) (drop index ms) of
        None \<Rightarrow> material
      | Some m \<Rightarrow> copy_material m material)"
proof (induction "length ms - index" arbitrary: index)
  case 0
  then show ?case by (simp add: FindMaterial_loop_end)
next
  case (Suc n)
  then have lt: "index < length ms" by simp
  then have d: "drop index ms = ms ! index # drop (Suc index) ms"
    by (simp add: Cons_nth_drop_Suc)
  show ?case
  proof (cases "OBJECT_MATERIAL.tag (ms ! index) = tg")
    case True
    then show ?thesis using lt d by (simp add: FindMaterial_loop_match)
  next
    case False
    have "n = length ms - Suc index" using Suc.hyps(2) by simp
    from Suc.hyps(1)[OF this] lt False d show ?thesis by (simp add: FindMaterial_loop_next)
  qed
qed

lemma FindMaterial_eq:
  "FindMaterial tg material s =
     (m_objectMaterials s \<noteq> [],
      case find (\<lambda>m. OBJECT_MATERIAL.tag m = tg) (m_objectMaterials s) of
        None \<Rightarrow> material
      | Some m \<Rightarrow> copy_material m material)"
  using FindMaterial_loop_scan[of 0 "m_objectMaterials s" tg material]
  by (auto simp: FindMaterial_def split: prod.splits)

section \<open>The texture registry: what the loops compute\<close>

lemma FindTextureSlot_loop_found:
  "FindTextureSlot_loop s tg textureSlot index True = Inr textureSlot"
  by (subst FindTextureSlot_loop.simps) simp

lemma FindTextureSlot_loop_end:
  "m_loadedTextures s \<le> index \<Longrightarrow> FindTextureSlot_loop s tg textureSlot index bFound = Inr textureSlot"
  by (subst FindTextureSlot_loop.simps) simp

lemma FindTextureSlot_loop_step:
  "index < m_loadedTextures s \<Longrightarrow> in_bounds (m_textureIDs s) index \<Longrightarrow>
   FindTextureSlot_loop s tg textureSlot index False =
     (if has_tag tg (m_textureIDs s ! nat index) then Inr index
      else FindTextureSlot_loop s tg textureSlot (index + 1) False)"
  by (subst FindTextureSlot_loop.simps) (simp add: FindTextureSlot_loop_found has_tag_def)

lemma registered_drop:
  assumes "registry_ok s" "0 \<le> index" "index < m_loadedTextures s"
  shows "drop (nat index) (registered s) =
           m_textureIDs s ! nat index # drop (nat (index + 1)) (registered s)"
    and "in_bounds (m_textureIDs s) index"
proof -
  have lt: "nat index < length (registered s)"
    using assms by (auto simp: registered_def registry_ok_def)
  have "registered s ! nat index = m_textureIDs s ! nat index"
    using assms by (simp add: registered_def) 
  moreover have "nat (index + 1) = Suc (nat index)" using assms by simp
  ultimately show "drop (nat index) (registered s) =
           m_textureIDs s ! nat index # drop (nat (index + 1)) (registered s)"
    using lt Cons_nth_drop_Suc[of "nat index" "registered s"] by simp
  show "in_bounds (m_textureIDs s) index"
    using assms by (auto simp: in_bounds_def registry_ok_def)
qed

lemma registered_drop_end:
  "m_loadedTextures s \<le> index \<Longrightarrow> drop (nat index) (registered s) = []"
  by (simp add: registered_def)

lemma FindTextureSlot_loop_scan:
  "registry_ok s \<Longrightarrow> 0 \<le> index \<Longrightarrow>
   FindTextureSlot_loop s tg textureSlot index False =
     Inr (case find (has_tag tg) (drop (nat index) (registered s)) of
            None \<Rightarrow> textureSlot
          | Some e \<Rightarrow> index + int (length (takeWhile (\<lambda>e. \<not> has_tag tg e) (drop (nat index) (registered s)))))"
proof (induction "nat (m_loadedTextures s - index)" arbitrary: index)
  case 0
  then have "m_loadedTextures s \<le> index" by simp
  then show ?case by (simp add: FindTextureSlot_loop_end registered_drop_end)
next
  case (Suc n)
  then have lt: "index < m_loadedTextures s" by linarith
  note d = registered_drop[OF Suc.prems(1) Suc.prems(2) lt]
  have n: "n = nat (m_loadedTextures s - (index + 1))" using Suc.hyps(2) by linarith
  have ih: "FindTextureSlot_loop s tg textureSlot (index + 1) False =
     Inr (case find (has_tag tg) (drop (nat (index + 1)) (registered s)) of
            None \<Rightarrow> textureSlot
          | Some e \<Rightarrow> (index + 1) + int (length (takeWhile (\<lambda>e. \<not> has_tag tg e) (drop (nat (index + 1)) (registered s)))))"
    using Suc.hyps(1)[OF n Suc.prems(1)] Suc.prems(2) by simp
  show ?case
    by (simp add: FindTextureSlot_loop_step[OF lt d(2)] d(1) ih split: option.splits)
qed

lemma FindTextureSlot_eq:
  "registry_ok s \<Longrightarrow>
   FindTextureSlot tg s =
     Inr (case find (has_tag tg) (registered s) of
            None \<Rightarrow> - 1
          | Some e \<Rightarrow> int (length (takeWhile (\<lambda>e. \<not> has_tag tg e) (registered s))))"
  using FindTextureSlot_loop_scan[of s 0 tg "- 1"]
  by (simp add: FindTextureSlot_def split: option.splits)

lemma FindTextureID_loop_found:
  "FindTextureID_loop s tg textureID index True = Inr textureID"
  by (subst FindTextureID_loop.simps) simp

lemma FindTextureID_loop_end:
  "m_loadedTextures s \<le> index \<Longrightarrow> FindTextureID_loop s tg textureID index bFound = Inr textureID"
  by (subst FindTextureID_loop.simps) simp

lemma FindTextureID_loop_step:
  "index < m_loadedTextures s \<Longrightarrow> in_bounds (m_textureIDs s) index \<Longrightarrow>
   FindTextureID_loop s tg textureID index False =
     (if has_tag tg (m_textureIDs s ! nat index) then Inr (sint (ID (m_textureIDs s ! nat index)))
      else FindTextureID_loop s tg textureID (index + 1) False)"
  by (subst FindTextureID_loop.simps) (simp add: FindTextureID_loop_found has_tag_def)

lemma FindTextureID_loop_scan:
  "registry_ok s \<Longrightarrow> 0 \<le> index \<Longrightarrow>
   FindTextureID_loop s tg textureID index False =
     Inr (case find (has_tag tg) (drop (nat index) (registered s)) of
            None \<Rightarrow> textureID
          | Some e \<Rightarrow> sint (ID e))"
proof (induction "nat (m_loadedTextures s - index)" arbitrary: index)
  case 0
  then have "m_loadedTextures s \<le> index" by simp
  then show ?case by (simp add: FindTextureID_loop_end registered_drop_end)
next
  case (Suc n)
  then have lt: "index < m_loadedTextures s" by linarith
  note d = registered_drop[OF Suc.prems(1) Suc.prems(2) lt]
  have n: "n = nat (m_loadedTextures s - (index + 1))" using Suc.hyps(2) by linarith
  have ih: "FindTextureID_loop s tg textureID (index + 1) False =
     Inr (case find (has_tag tg) (drop (nat (index + 1)) (registered s)) of
            None \<Rightarrow> textureID
          | Some e \<Rightarrow> sint (ID e))"
    using Suc.hyps(1)[OF n Suc.prems(1)] Suc.prems(2) by simp
  show ?case
    by (simp add: FindTextureID_loop_step[OF lt d(2)] d(1) ih)
qed

lemma FindTextureID_eq:
  "registry_ok s \<Longrightarrow>
   FindTextureID tg s =
     Inr (case find (has_tag tg) (registered s) of None \<Rightarrow> - 1 | Some e \<Rightarrow> sint (ID e))"
  using FindTextureID_loop_scan[of s 0 tg "- 1"] by (simp add: FindTextureID_def)

lemma CreateGLTexture_success:
  assumes "colorChannels img = 3 \<or> colorChannels img = 4"
  shows "CreateGLTexture (Some img) textureID filename tg s =
     (if in_bounds (m_textureIDs s) (m_loadedTextures s) then
        Inr (True,
          s\<lparr>m_textureIDs := (m_textureIDs s)
                [nat (m_loadedTextures s) := \<lparr>TEXTURE_INFO.tag = tg, ID = textureID\<rparr>],
            m_loadedTextures := m_loadedTextures s + 1,
            events := events s @
              [stbi_set_flip_vertically_on_load True, stbi_load filename,
               cout [Str ''Successfully loaded image:'', Str filename,
                     Str '', width:'', Num (width img),
                     Str '', height:'', Num (height img),
                     Str '', channels:'', Num (colorChannels img), Endl],
               glGenTextures textureID,
               glBindTexture GL_TEXTURE_2D textureID,
               glTexParameteri GL_TEXTURE_2D GL_TEXTURE_WRAP_S GL_REPEAT,
               glTexParameteri GL_TEXTURE_2D GL_TEXTURE_WRAP_T GL_REPEAT,
               glTexParameteri GL_TEXTURE_2D GL_TEXTURE_MIN_FILTER GL_LINEAR,
               glTexParameteri GL_TEXTURE_2D GL_TEXTURE_MAG_FILTER GL_LINEAR,
               glTexImage2D GL_TEXTURE_2D 0
                 (if colorChannels img = 3 then GL_RGB8 else GL_RGBA8) (width img) (height img) 0
                 (if colorChannels img = 3 then GL_RGB else GL_RGBA) GL_UNSIGNED_BYTE (pixels img),
               glGenerateMipmap GL_TEXTURE_2D,
               stbi_image_free (pixels img),
               glBindTexture GL_TEXTURE_2D 0]\<rparr>)
      else Inl (OutOfBounds (m_loadedTextures s)))"
  using assms by (auto simp: CreateGLTexture_def emit_def Let_def)

lemma CreateGLTexture_failure:
  assumes "\<not> load_succeeds (filename, tg, loaded, textureID)"
  shows "\<exists>es. CreateGLTexture loaded textureID filename tg s = Inr (False, emit es s)"
  using assms
  by (cases loaded) (auto simp: CreateGLTexture_def emit_def Let_def load_succeeds_def)

lemma registered_emit [simp]: "registered (emit es s) = registered s"
  by (simp add: registered_def emit_def)

lemma registry_ok_emit [simp]: "registry_ok (emit es s) = registry_ok s"
  by (simp add: registry_ok_def emit_def)

lemma take_Suc_update:
  "n < length xs \<Longrightarrow> take (Suc n) (xs[n := e]) = take n xs @ [e]"
  by (simp add: take_Suc_conv_app_nth)

lemma CreateGLTexture_registry:
  assumes ok: "registry_ok s"
    and run: "CreateGLTexture loaded textureID filename tg s = Inr (bReturn, s')"
  shows "registry_ok s' \<and> length (m_textureIDs s') = length (m_textureIDs s) \<and>
         m_pShaderManager s' = m_pShaderManager s \<and>
         bReturn = load_succeeds (filename, tg, loaded, textureID) \<and>
         registered s' = registered s @
           (if load_succeeds (filename, tg, loaded, textureID)
            then [registration (filename, tg, loaded, textureID)] else [])"
proof (cases "load_succeeds (filename, tg, loaded, textureID)")
  case False
  from CreateGLTexture_failure[OF False, of s] run obtain es where "bReturn = False" "s' = emit es s"
    by auto
  with ok False show ?thesis by (simp add: emit_def registry_ok_def registered_def)
next
  case True
  then obtain img where img: "loaded = Some img" "colorChannels img = 3 \<or> colorChannels img = 4"
    by (auto simp: load_succeeds_def split: option.splits)
  from run have inb: "in_bounds (m_textureIDs s) (m_loadedTextures s)"
    unfolding img(1) CreateGLTexture_success[OF img(2)] by (simp split: if_splits)
  then have lt: "nat (m_loadedTextures s) < length (m_textureIDs s)" and nn: "0 \<le> m_loadedTextures s"
    by (simp_all add: in_bounds_def)
  have suc: "nat (m_loadedTextures s + 1) = Suc (nat (m_loadedTextures s))" using nn by simp
  from run inb have s': "bReturn = True"
      "m_textureIDs s' = (m_textureIDs s)
          [nat (m_loadedTextures s) := \<lparr>TEXTURE_INFO.tag = tg, ID = textureID\<rparr>]"
      "m_loadedTextures s' = m_loadedTextures s + 1"
      "m_pShaderManager s' = m_pShaderManager s"
    unfolding img(1) CreateGLTexture_success[OF img(2)] by auto
  have "registered s' = registered s @ [\<lparr>TEXTURE_INFO.tag = tg, ID = textureID\<rparr>]"
    unfolding registered_def s'(2,3) suc using lt by (rule take_Suc_update)
  then show ?thesis
    using True s' lt nn
    by (simp add: registry_ok_def registration_def load_tag_def load_ID_def)
qed

lemma CreateGLTextures_registry:
  "registry_ok s \<Longrightarrow> CreateGLTextures cs s = Inr s' \<Longrightarrow>
   registry_ok s' \<and> length (m_textureIDs s') = length (m_textureIDs s) \<and>
   m_pShaderManager s' = m_pShaderManager s \<and>
   registered s' = registered s @ map registration (filter load_succeeds cs)"
proof (induction cs arbitrary: s)
  case Nil
  then show ?case by simp
next
  case (Cons c cs)
  obtain filename tg loaded textureID where c: "c = (filename, tg, loaded, textureID)"
    by (cases c) auto
  from Cons.prems(2) obtain bReturn s1 where
    one: "CreateGLTexture loaded textureID filename tg s = Inr (bReturn, s1)"
    and rest: "CreateGLTextures cs s1 = Inr s'"
    unfolding c by (auto split: sum.splits)
  note r1 = CreateGLTexture_registry[OF Cons.prems(1) one]
  from r1 have ok1: "registry_ok s1" by simp
  note r2 = Cons.IH[OF ok1 rest]
  show ?case using r1 r2 unfolding c by simp
qed

lemma length_registered: "registry_ok s \<Longrightarrow> length (registered s) = nat (m_loadedTextures s)"
  by (simp add: registered_def registry_ok_def)

lemma CreateGLTextures_defined:
  "registry_ok s \<Longrightarrow>
   nat (m_loadedTextures s) + length (filter load_succeeds cs) \<le> length (m_textureIDs s) \<Longrightarrow>
   \<exists>s'. CreateGLTextures cs s = Inr s'"
proof (induction cs arbitrary: s)
  case Nil
  then show ?case by simp
next
  case (Cons c cs)
  obtain filename tg loaded textureID where c: "c = (filename, tg, loaded, textureID)"
    by (cases c) auto
  have "\<exists>bReturn s1. CreateGLTexture loaded textureID filename tg s = Inr (bReturn, s1)"
  proof (cases "load_succeeds c")
    case False
    then show ?thesis using CreateGLTexture_failure[of filename tg loaded textureID s]
      unfolding c by blast
  next
    case True
    then obtain img where img: "loaded = Some img" "colorChannels img = 3 \<or> colorChannels img = 4"
      unfolding c by (auto simp: load_succeeds_def split: option.splits)
    have "in_bounds (m_textureIDs s) (m_loadedTextures s)"
      using Cons.prems True by (simp add: in_bounds_def registry_ok_def)
    then show ?thesis unfolding img(1) CreateGLTexture_success[OF img(2)] by auto
  qed
  then obtain bReturn s1 where
    one: "CreateGLTexture loaded textureID filename tg s = Inr (bReturn, s1)" by blast
  note r1 = CreateGLTexture_registry[OF Cons.prems(1) one]
  have len1: "nat (m_loadedTextures s1) = nat (m_loadedTextures s) + (if load_succeeds c then 1 else 0)"
    using r1 length_registered[of s1] length_registered[OF Cons.prems(1)] unfolding c
    by (simp split: if_splits)
  have "\<exists>s'. CreateGLTextures cs s1 = Inr s'"
    using Cons.IH[of s1] r1 len1 Cons.prems(2) by (simp split: if_splits)
  then show ?case unfolding c using one by simp
qed

lemma registry_ok_ctor: "registry_ok (SceneManager_ctor sh)"
  by (simp add: registry_ok_def SceneManager_ctor_def)

lemma registered_ctor: "registered (SceneManager_ctor sh) = []"
  by (simp add: registered_def SceneManager_ctor_def)

lemma emit_emit: "emit bs (emit as s) = emit (as @ bs) s"
  by (simp add: emit_def)

lemma emit_Nil: "emit [] s = s"
  by (simp add: emit_def)

lemma bind_events_emit: "bind_events (emit es s) = bind_events s"
  by (simp add: bind_events_def emit_def fun_eq_iff)

lemma upt_nat_step:
  "0 \<le> i \<Longrightarrow> i < n \<Longrightarrow> [nat i..<nat n] = nat i # [nat (i + 1)..<nat n]"
  by (simp add: upt_conv_Cons nat_add_distrib)

lemma BindGLTextures_loop_scan:
  "registry_ok s \<Longrightarrow> 0 \<le> i \<Longrightarrow>
   BindGLTextures_loop i s =
     Inr (emit (concat (map (bind_events s) [nat i..<nat (m_loadedTextures s)])) s)"
proof (induction "nat (m_loadedTextures s - i)" arbitrary: i s)
  case 0
  then have "\<not> i < m_loadedTextures s" by simp
  then show ?case by (subst BindGLTextures_loop.simps) (simp add: emit_Nil)
next
  case (Suc n)
  then have lt: "i < m_loadedTextures s" by linarith
  have inb: "in_bounds (m_textureIDs s) i"
    using Suc.prems lt by (auto simp: in_bounds_def registry_ok_def)
  let ?s1 = "emit (bind_events s (nat i)) s"
  have n: "n = nat (m_loadedTextures ?s1 - (i + 1))"
    using Suc.hyps(2) by (simp add: emit_def)
  have ih: "BindGLTextures_loop (i + 1) ?s1 =
     Inr (emit (concat (map (bind_events ?s1) [nat (i + 1)..<nat (m_loadedTextures ?s1)])) ?s1)"
    using Suc.hyps(1)[OF n] Suc.prems by simp
  have l1: "m_loadedTextures ?s1 = m_loadedTextures s" by (simp add: emit_def)
  have step: "BindGLTextures_loop i s = BindGLTextures_loop (i + 1) ?s1"
    using lt inb Suc.prems(2)
    by (subst BindGLTextures_loop.simps) (simp add: bind_events_def)
  show ?case
    unfolding step ih l1 bind_events_emit emit_emit upt_nat_step[OF Suc.prems(2) lt]
    by simp
qed

lemma BindGLTextures_eq:
  "registry_ok s \<Longrightarrow>
   BindGLTextures s =
     Inr (emit (concat (map (bind_events s) [0..<nat (m_loadedTextures s)])) s)"
  using BindGLTextures_loop_scan[of s 0] by (simp add: BindGLTextures_def)

lemma DestroyGLTextures_loop_scan:
  "registry_ok s \<Longrightarrow> 0 \<le> i \<Longrightarrow>
   \<exists>s'. DestroyGLTextures_loop names i s = Inr s' \<and>
        events s' = events s @
          map (\<lambda>k. glGenTextures (names (int k))) [nat i..<nat (m_loadedTextures s)] \<and>
        m_loadedTextures s' = m_loadedTextures s \<and>
        length (m_textureIDs s') = length (m_textureIDs s)"
proof (induction "nat (m_loadedTextures s - i)" arbitrary: i s)
  case 0
  then have "\<not> i < m_loadedTextures s" by simp
  then show ?case by (subst DestroyGLTextures_loop.simps) simp
next
  case (Suc n)
  then have lt: "i < m_loadedTextures s" by linarith
  have inb: "in_bounds (m_textureIDs s) i"
    using Suc.prems lt by (auto simp: in_bounds_def registry_ok_def)
  let ?s1 = "emit [glGenTextures (names i)]
               (s\<lparr>m_textureIDs := (m_textureIDs s)
                     [nat i := (m_textureIDs s ! nat i)\<lparr>ID := names i\<rparr>]\<rparr>)"
  have l1: "m_loadedTextures ?s1 = m_loadedTextures s"
      "length (m_textureIDs ?s1) = length (m_textureIDs s)"
      "events ?s1 = events s @ [glGenTextures (names i)]"
    by (simp_all add: emit_def)
  have ok1: "registry_ok ?s1" using Suc.prems(1) by (simp add: registry_ok_def emit_def)
  have n: "n = nat (m_loadedTextures ?s1 - (i + 1))"
    using Suc.hyps(2) unfolding l1 by linarith
  have i1: "0 \<le> i + 1" using Suc.prems(2) by simp
  from Suc.hyps(1)[OF n ok1 i1] obtain s' where
    s': "DestroyGLTextures_loop names (i + 1) ?s1 = Inr s'"
      "events s' = events ?s1 @
          map (\<lambda>k. glGenTextures (names (int k))) [nat (i + 1)..<nat (m_loadedTextures ?s1)]"
      "m_loadedTextures s' = m_loadedTextures ?s1"
      "length (m_textureIDs s') = length (m_textureIDs ?s1)"
    by blast
  have step: "DestroyGLTextures_loop names i s = DestroyGLTextures_loop names (i + 1) ?s1"
    using lt inb by (subst DestroyGLTextures_loop.simps) simp
  show ?case
    unfolding step using s' Suc.prems(2)
    unfolding l1 upt_nat_step[OF Suc.prems(2) lt] by simp
qed

lemma DestroyGLTextures_events:
  "registry_ok s \<Longrightarrow>
   \<exists>s'. DestroyGLTextures names s = Inr s' \<and>
        events s' = events s @
          map (\<lambda>k. glGenTextures (names (int k))) [0..<nat (m_loadedTextures s)] \<and>
        m_loadedTextures s' = m_loadedTextures s"
  using DestroyGLTextures_loop_scan[of s 0 names] by (auto simp: DestroyGLTextures_def)

lemma in_bounds_ctor:
  "in_bounds (m_textureIDs (SceneManager_ctor sh)) (m_loadedTextures (SceneManager_ctor sh))"
  by (simp add: in_bounds_def SceneManager_ctor_def)

section \<open>First matches in a list\<close>

lemma takeWhile_holds_below:
  assumes "k < length (takeWhile Q xs)"
  shows "Q (xs ! k)"
proof -
  have "takeWhile Q xs ! k \<in> set (takeWhile Q xs)" using assms by simp
  then have "Q (takeWhile Q xs ! k)" by (rule set_takeWhileD [THEN conjunct2])
  then show ?thesis by (simp add: takeWhile_nth[OF assms])
qed

lemma first_match:
  assumes "i < length xs" "P (xs ! i)"
  shows "length (takeWhile (\<lambda>x. \<not> P x) xs) \<le> i"
    and "P (xs ! length (takeWhile (\<lambda>x. \<not> P x) xs))"
    and "\<forall>k<length (takeWhile (\<lambda>x. \<not> P x) xs). \<not> P (xs ! k)"
    and "find P xs \<noteq> None"
proof -
  let ?j = "length (takeWhile (\<lambda>x. \<not> P x) xs)"
  show le: "?j \<le> i"
  proof (rule ccontr)
    assume "\<not> ?j \<le> i"
    then have "i < ?j" by simp
    from takeWhile_holds_below[OF this] assms(2) show False by simp
  qed
  with assms(1) have "?j < length xs" by simp
  from nth_length_takeWhile[OF this] show "P (xs ! ?j)" by simp
  show "\<forall>k<?j. \<not> P (xs ! k)"
    using takeWhile_holds_below[of _ "\<lambda>x. \<not> P x" xs] by blast
  show "find P xs \<noteq> None"
    using assms nth_mem[of i xs] unfolding find_None_iff by blast
qed

lemma three_calls_ok:
  "filter load_succeeds three_calls =
     [(''textures/plastic.jpg'', ''plastic'', Some rgb_image, 1),
      (''textures/wood.jpg'', ''wood'', Some (rgb_image\<lparr>colorChannels := 4\<rparr>), 2)]"
  by (simp add: three_calls_def load_succeeds_def rgb_image_def)

section \<open>The claims about the material registry\<close>

text \<open>
  C1. \<^verbatim>\<open>DefineObjectMaterials\<close>, run on the empty registry that the constructor leaves,
  commits one material, the one tagged \<open>metal\<close>. The wood material is filled in and never
  pushed, so a lookup of \<open>wood\<close> does not return the wood values 2.0 and 4.0: it returns
  true and leaves the caller's material as it was. The lookup of \<open>plastic\<close> does not fail
  either: it returns true as well.
\<close>

theorem DefineObjectMaterials_commits_metal_only:
  "m_objectMaterials (DefineObjectMaterials (SceneManager_ctor sh)) =
     [\<lparr>ambientColor = vec3 0.2 0.2 0.2, ambientStrength = 5.0, diffuseColor = vec3 0.2 0.2 0.2,
       specularColor = vec3 0.5 0.5 0.5, shininess = 12.0, tag = ''metal''\<rparr>]
   \<and> FindMaterial ''wood'' material (DefineObjectMaterials (SceneManager_ctor sh)) = (True, material)
   \<and> FindMaterial ''plastic'' material (DefineObjectMaterials (SceneManager_ctor sh)) = (True, material)"
  by (simp add: DefineObjectMaterials_def SceneManager_ctor_def FindMaterial_eq Let_def)

text \<open>
  C2. What \<^verbatim>\<open>FindMaterial\<close> computes, for every registry and every tag: the scan is linear
  and the first entry with the tag wins (its five fields are copied), but the value
  returned only says whether the registry has an entry at all. A tag that matches no entry
  of a registry that is not empty is reported as found: with the one material \<open>metal\<close>
  defined, the lookup of \<open>wood\<close> returns true.
\<close>

theorem FindMaterial_drops_found_flag:
  "FindMaterial tg material s =
     (m_objectMaterials s \<noteq> [],
      case find (\<lambda>m. OBJECT_MATERIAL.tag m = tg) (m_objectMaterials s) of
        None \<Rightarrow> material
      | Some m \<Rightarrow> copy_material m material)
   \<and> FindMaterial ''wood'' material
       (s\<lparr>m_objectMaterials := [m\<lparr>OBJECT_MATERIAL.tag := ''metal''\<rparr>]\<rparr>) = (True, material)"
  by (simp add: FindMaterial_eq)

text \<open>
  C3. What \<^verbatim>\<open>SetShaderMaterial\<close> does with a shader manager attached, for every registry and
  every tag: nothing when the registry is empty; otherwise it pushes five uniforms, the
  five fields of the first entry with the tag when there is one, and the contents of its
  uninitialised local material when there is none. So with the one material \<open>metal\<close>
  defined, the call for the tag \<open>wood\<close>, which matches no entry, is not a no-op.
\<close>

theorem SetShaderMaterial_pushes_without_match:
  "SetShaderMaterial tg material (s\<lparr>m_pShaderManager := Some sh\<rparr>) =
     (if m_objectMaterials s = [] then Inr (s\<lparr>m_pShaderManager := Some sh\<rparr>)
      else
        (let material' =
               (case find (\<lambda>m. OBJECT_MATERIAL.tag m = tg) (m_objectMaterials s) of
                  None \<Rightarrow> material
                | Some m \<Rightarrow> copy_material m material)
         in Inr (s\<lparr>m_pShaderManager := Some (sh @
              [setVec3Value ''material.ambientColor'' (ambientColor material'),
               setFloatValue ''material.ambientStrength'' (ambientStrength material'),
               setVec3Value ''material.diffuseColor'' (diffuseColor material'),
               setVec3Value ''material.specularColor'' (specularColor material'),
               setFloatValue ''material.shininess'' (shininess material')])\<rparr>)))
   \<and> SetShaderMaterial ''wood'' material (DefineObjectMaterials (SceneManager_ctor (Some sh))) =
     Inr ((DefineObjectMaterials (SceneManager_ctor (Some sh)))\<lparr>m_pShaderManager := Some (sh @
            [setVec3Value ''material.ambientColor'' (ambientColor material),
             setFloatValue ''material.ambientStrength'' (ambientStrength material),
             setVec3Value ''material.diffuseColor'' (diffuseColor material),
             setVec3Value ''material.specularColor'' (specularColor material),
             setFloatValue ''material.shininess'' (shininess material)])\<rparr>)"
  by (simp add: FindMaterial_eq SetShaderMaterial_def SceneManager_ctor_def
      DefineObjectMaterials_def Let_def)

section \<open>The claims about the texture registry\<close>

text \<open>
  C4. After one texture is loaded, \<^verbatim>\<open>DestroyGLTextures\<close> frees nothing: its one call of
  OpenGL is \<^verbatim>\<open>glGenTextures\<close>, which hands out a new name (2 here), and the texture named 1
  is never deleted. The count of loaded textures stays 1. With no texture loaded the
  method does nothing.
\<close>

theorem DestroyGLTextures_generates_names:
  "(\<exists>s1 s2.
      CreateGLTexture (Some \<lparr>pixels = 0, width = 1, height = 1, colorChannels = 3\<rparr>) 1
        ''textures/wood.jpg'' ''wood'' (SceneManager_ctor sh) = Inr (True, s1) \<and>
      m_loadedTextures s1 = 1 \<and>
      DestroyGLTextures (\<lambda>i. 2) s1 = Inr s2 \<and>
      events s2 = events s1 @ [glGenTextures 2] \<and>
      glDeleteTextures 1 \<notin> set (events s2) \<and>
      m_loadedTextures s2 = 1) \<and>
   DestroyGLTextures names (SceneManager_ctor sh) = Inr (SceneManager_ctor sh)"
proof -
  have none: "DestroyGLTextures names (SceneManager_ctor sh) = Inr (SceneManager_ctor sh)"
    unfolding DestroyGLTextures_def
    by (subst DestroyGLTextures_loop.simps) (simp add: SceneManager_ctor_def)
  let ?img = "\<lparr>pixels = 0, width = 1, height = 1, colorChannels = 3\<rparr>"
  have ch: "colorChannels ?img = 3 \<or> colorChannels ?img = 4" by simp
  obtain s1 where s1: "CreateGLTexture (Some ?img) 1 ''textures/wood.jpg'' ''wood''
      (SceneManager_ctor sh) = Inr (True, s1)"
    unfolding CreateGLTexture_success[OF ch] using in_bounds_ctor[of sh] by simp
  note r = CreateGLTexture_registry[OF registry_ok_ctor s1]
  have l1: "m_loadedTextures s1 = 1"
    using s1 unfolding CreateGLTexture_success[OF ch] using in_bounds_ctor[of sh]
    by (auto simp: SceneManager_ctor_def)
  have e1: "glDeleteTextures 1 \<notin> set (events s1)"
    using s1 unfolding CreateGLTexture_success[OF ch] using in_bounds_ctor[of sh]
    by (auto simp: SceneManager_ctor_def)
  from r have ok1: "registry_ok s1" by simp
  from DestroyGLTextures_events[OF ok1, of "\<lambda>i. 2"] obtain s2 where
    s2: "DestroyGLTextures (\<lambda>i. 2) s1 = Inr s2"
      "events s2 = events s1 @ map (\<lambda>k. glGenTextures 2) [0..<nat (m_loadedTextures s1)]"
      "m_loadedTextures s2 = m_loadedTextures s1"
    by blast
  have "\<exists>s1 s2.
      CreateGLTexture (Some ?img) 1 ''textures/wood.jpg'' ''wood'' (SceneManager_ctor sh) =
        Inr (True, s1) \<and>
      m_loadedTextures s1 = 1 \<and>
      DestroyGLTextures (\<lambda>i. 2) s1 = Inr s2 \<and>
      events s2 = events s1 @ [glGenTextures 2] \<and>
      glDeleteTextures 1 \<notin> set (events s2) \<and>
      m_loadedTextures s2 = 1"
    using s1 s2 l1 e1 by simp
  with none show ?thesis by blast
qed

text \<open>
  C6. When the file decodes to an image whose channel count is neither 3 nor 4,
  \<^verbatim>\<open>CreateGLTexture\<close> returns false; the last thing it does is to write the line about the
  channel count to \<^verbatim>\<open>std::cout\<close>; nothing it does on the way frees the decoded buffer; and
  the entries of the texture array and the count of loaded textures are as before.
\<close>

theorem CreateGLTexture_unsupported_channels:
  assumes "colorChannels img \<noteq> 3" and "colorChannels img \<noteq> 4"
  shows "\<exists>s'. CreateGLTexture (Some img) textureID filename tg s = Inr (False, s') \<and>
     events s' = events s @
       [stbi_set_flip_vertically_on_load True, stbi_load filename,
        cout [Str ''Successfully loaded image:'', Str filename,
              Str '', width:'', Num (width img),
              Str '', height:'', Num (height img),
              Str '', channels:'', Num (colorChannels img), Endl],
        glGenTextures textureID,
        glBindTexture GL_TEXTURE_2D textureID,
        glTexParameteri GL_TEXTURE_2D GL_TEXTURE_WRAP_S GL_REPEAT,
        glTexParameteri GL_TEXTURE_2D GL_TEXTURE_WRAP_T GL_REPEAT,
        glTexParameteri GL_TEXTURE_2D GL_TEXTURE_MIN_FILTER GL_LINEAR,
        glTexParameteri GL_TEXTURE_2D GL_TEXTURE_MAG_FILTER GL_LINEAR,
        cout [Str ''Not implemented to handle image with '',
              Num (colorChannels img), Str '' channels'', Endl]] \<and>
     stbi_image_free (pixels img) \<notin> set (drop (length (events s)) (events s')) \<and>
     m_textureIDs s' = m_textureIDs s \<and>
     m_loadedTextures s' = m_loadedTextures s"
  using assms by (simp add: CreateGLTexture_def emit_def Let_def)

theorem CreateGLTexture_unsupported_channels_witness:
  "\<exists>s'. CreateGLTexture (Some \<lparr>pixels = 4096, width = 2, height = 2, colorChannels = 1\<rparr>) 7
         ''textures/grey.png'' ''grey'' (SceneManager_ctor None) = Inr (False, s') \<and>
        events s' =
          [stbi_set_flip_vertically_on_load True, stbi_load ''textures/grey.png'',
           cout [Str ''Successfully loaded image:'', Str ''textures/grey.png'',
                 Str '', width:'', Num 2, Str '', height:'', Num 2,
                 Str '', channels:'', Num 1, Endl],
           glGenTextures 7,
           glBindTexture GL_TEXTURE_2D 7,
           glTexParameteri GL_TEXTURE_2D GL_TEXTURE_WRAP_S GL_REPEAT,
           glTexParameteri GL_TEXTURE_2D GL_TEXTURE_WRAP_T GL_REPEAT,
           glTexParameteri GL_TEXTURE_2D GL_TEXTURE_MIN_FILTER GL_LINEAR,
           glTexParameteri GL_TEXTURE_2D GL_TEXTURE_MAG_FILTER GL_LINEAR,
           cout [Str ''Not implemented to handle image with '', Num 1, Str '' channels'', Endl]] \<and>
        m_loadedTextures s' = 0"
proof -
  let ?img = "\<lparr>pixels = 4096, width = 2, height = 2, colorChannels = 1\<rparr>"
  have h3: "colorChannels ?img \<noteq> 3" and h4: "colorChannels ?img \<noteq> 4" by simp_all
  from CreateGLTexture_unsupported_channels[OF h3 h4, of 7 "''textures/grey.png''" "''grey''"
      "SceneManager_ctor None"]
  show ?thesis by (auto simp: SceneManager_ctor_def)
qed

text \<open>
  C7. A load that decodes three or four channels writes its entry at index
  \<^verbatim>\<open>m_loadedTextures\<close> and adds one to the count whenever that index lies in the array; when
  it does not, the write is past the end of the array (nothing rejects the load). After
  sixteen successful loads on a fresh scene manager the count is 16, the size of the
  array, and a seventeenth successful load indexes the array at 16.
\<close>

theorem CreateGLTexture_no_capacity_check:
  assumes "colorChannels img = 3 \<or> colorChannels img = 4"
  shows "(if in_bounds (m_textureIDs s) (m_loadedTextures s) then
            \<exists>s'. CreateGLTexture (Some img) textureID filename tg s = Inr (True, s') \<and>
                 m_textureIDs s' = (m_textureIDs s)
                   [nat (m_loadedTextures s) := \<lparr>TEXTURE_INFO.tag = tg, ID = textureID\<rparr>] \<and>
                 m_loadedTextures s' = m_loadedTextures s + 1
          else CreateGLTexture (Some img) textureID filename tg s =
                 Inl (OutOfBounds (m_loadedTextures s))) \<and>
         (length (filter load_succeeds cs) = 16 \<longrightarrow>
            (\<exists>s16. CreateGLTextures cs (SceneManager_ctor sh) = Inr s16 \<and>
                   m_loadedTextures s16 = 16 \<and> length (m_textureIDs s16) = 16 \<and>
                   CreateGLTexture (Some img) textureID filename tg s16 = Inl (OutOfBounds 16)))"
proof (intro conjI impI)
  show "if in_bounds (m_textureIDs s) (m_loadedTextures s) then
            \<exists>s'. CreateGLTexture (Some img) textureID filename tg s = Inr (True, s') \<and>
                 m_textureIDs s' = (m_textureIDs s)
                   [nat (m_loadedTextures s) := \<lparr>TEXTURE_INFO.tag = tg, ID = textureID\<rparr>] \<and>
                 m_loadedTextures s' = m_loadedTextures s + 1
          else CreateGLTexture (Some img) textureID filename tg s =
                 Inl (OutOfBounds (m_loadedTextures s))"
    unfolding CreateGLTexture_success[OF assms] by simp
next
  assume n: "length (filter load_succeeds cs) = 16"
  have len0: "length (m_textureIDs (SceneManager_ctor sh)) = 16"
    and l0: "m_loadedTextures (SceneManager_ctor sh) = 0"
    by (simp_all add: SceneManager_ctor_def)
  from CreateGLTextures_defined[OF registry_ok_ctor, of sh cs] n len0 l0
  obtain s16 where run: "CreateGLTextures cs (SceneManager_ctor sh) = Inr s16" by auto
  note r = CreateGLTextures_registry[OF registry_ok_ctor run]
  from r have ok: "registry_ok s16" and len: "length (m_textureIDs s16) = 16"
    using len0 by simp_all
  from r n have "length (registered s16) = 16" by (simp add: registered_ctor)
  with length_registered[OF ok] have "nat (m_loadedTextures s16) = 16" by simp
  then have l16: "m_loadedTextures s16 = 16" by linarith
  have "\<not> in_bounds (m_textureIDs s16) (m_loadedTextures s16)"
    using len l16 by (simp add: in_bounds_def)
  then have "CreateGLTexture (Some img) textureID filename tg s16 = Inl (OutOfBounds 16)"
    unfolding CreateGLTexture_success[OF assms] using l16 by simp
  with run l16 len
  show "\<exists>s16. CreateGLTextures cs (SceneManager_ctor sh) = Inr s16 \<and>
                   m_loadedTextures s16 = 16 \<and> length (m_textureIDs s16) = 16 \<and>
                   CreateGLTexture (Some img) textureID filename tg s16 = Inl (OutOfBounds 16)"
    by blast
qed

theorem CreateGLTexture_no_capacity_check_witness:
  "\<exists>s16. CreateGLTextures (replicate 16 (''textures/wood.jpg'', ''wood'', Some rgb_image, 1))
            (SceneManager_ctor None) = Inr s16 \<and>
         m_loadedTextures s16 = 16 \<and>
         CreateGLTexture (Some rgb_image) 2 ''textures/brick.jpg'' ''brick'' s16 = Inl (OutOfBounds 16)"
proof -
  have h: "colorChannels rgb_image = 3 \<or> colorChannels rgb_image = 4"
    by (simp add: rgb_image_def)
  have n: "length (filter load_succeeds
      (replicate 16 (''textures/wood.jpg'', ''wood'', Some rgb_image, 1))) = 16"
    by (simp add: load_succeeds_def rgb_image_def)
  from CreateGLTexture_no_capacity_check[OF h, of _ 2 "''textures/brick.jpg''" "''brick''"
      "replicate 16 (''textures/wood.jpg'', ''wood'', Some rgb_image, 1)" None] n
  show ?thesis by blast
qed

text \<open>
  C8. Let \<open>ok\<close> be the successful ones among the \<^verbatim>\<open>CreateGLTexture\<close> calls made on a fresh
  scene manager, at most sixteen of them. The calls run without touching anything outside
  the array, the count is the length of \<open>ok\<close>, and \<^verbatim>\<open>BindGLTextures\<close> makes unit
  \<^verbatim>\<open>GL_TEXTURE0 + i\<close> active and binds the name of the \<open>i\<close>-th successful load to it, for
  \<open>i\<close> from 0 up in load order. \<^verbatim>\<open>FindTextureSlot\<close> on the tag of the \<open>i\<close>-th successful load
  returns the first index whose load had that tag, which is \<open>i\<close> when no earlier load had
  it.
\<close>

theorem BindGLTextures_in_load_order:
  assumes "ok = filter load_succeeds cs" and "length ok \<le> 16"
  shows "\<exists>s. CreateGLTextures cs (SceneManager_ctor sh) = Inr s \<and>
     m_loadedTextures s = int (length ok) \<and>
     BindGLTextures s =
       Inr (emit (concat (map (\<lambda>i. [glActiveTexture (GL_TEXTURE0 + int i),
                                     glBindTexture GL_TEXTURE_2D (load_ID (ok ! i))])
                           [0..<length ok])) s) \<and>
     (\<forall>i<length ok. \<exists>j\<le>i.
        FindTextureSlot (load_tag (ok ! i)) s = Inr (int j) \<and>
        load_tag (ok ! j) = load_tag (ok ! i) \<and>
        (\<forall>k<j. load_tag (ok ! k) \<noteq> load_tag (ok ! i))) \<and>
     (\<forall>i<length ok. (\<forall>k<i. load_tag (ok ! k) \<noteq> load_tag (ok ! i)) \<longrightarrow>
        FindTextureSlot (load_tag (ok ! i)) s = Inr (int i))"
proof -
  have len0: "length (m_textureIDs (SceneManager_ctor sh)) = 16"
    and l0: "m_loadedTextures (SceneManager_ctor sh) = 0"
    by (simp_all add: SceneManager_ctor_def)
  from CreateGLTextures_defined[OF registry_ok_ctor, of sh cs] assms len0 l0
  obtain s where run: "CreateGLTextures cs (SceneManager_ctor sh) = Inr s" by auto
  note r = CreateGLTextures_registry[OF registry_ok_ctor run]
  from r have rok: "registry_ok s" and reg: "registered s = map registration ok"
    by (simp_all add: registered_ctor assms(1))
  have n: "nat (m_loadedTextures s) = length ok"
    using length_registered[OF rok] reg by simp
  have cnt: "m_loadedTextures s = int (length ok)"
    using n rok unfolding registry_ok_def by linarith
  have entry: "m_textureIDs s ! i = registration (ok ! i)" if "i < length ok" for i
  proof -
    have "registered s ! i = m_textureIDs s ! i"
      using that n by (simp add: registered_def)
    then show ?thesis using that reg by simp
  qed
  have m: "map (bind_events s) [0..<length ok] =
        map (\<lambda>i. [glActiveTexture (GL_TEXTURE0 + int i),
                   glBindTexture GL_TEXTURE_2D (load_ID (ok ! i))]) [0..<length ok]"
    by (rule map_cong) (simp_all add: bind_events_def entry registration_def)
  have bind: "BindGLTextures s =
       Inr (emit (concat (map (\<lambda>i. [glActiveTexture (GL_TEXTURE0 + int i),
                                     glBindTexture GL_TEXTURE_2D (load_ID (ok ! i))])
                           [0..<length ok])) s)"
    unfolding BindGLTextures_eq[OF rok] n m by (rule refl)
  have slot: "\<exists>j\<le>i.
        FindTextureSlot (load_tag (ok ! i)) s = Inr (int j) \<and>
        load_tag (ok ! j) = load_tag (ok ! i) \<and>
        (\<forall>k<j. load_tag (ok ! k) \<noteq> load_tag (ok ! i))" if i: "i < length ok" for i
  proof -
    let ?P = "\<lambda>c. load_tag c = load_tag (ok ! i)"
    let ?j = "length (takeWhile (\<lambda>c. \<not> ?P c) ok)"
    have tw: "takeWhile (\<lambda>e. \<not> has_tag (load_tag (ok ! i)) e) (map registration ok) =
              map registration (takeWhile (\<lambda>c. \<not> ?P c) ok)"
      by (simp add: takeWhile_map comp_def has_tag_def registration_def)
    have fnd: "find (has_tag (load_tag (ok ! i))) (map registration ok) \<noteq> None"
      using i nth_mem[OF i] unfolding find_None_iff
      by (auto simp: has_tag_def registration_def)
    have "FindTextureSlot (load_tag (ok ! i)) s = Inr (int ?j)"
      using fnd by (auto simp: FindTextureSlot_eq[OF rok] reg tw)
    moreover have "?P (ok ! i)" by simp
    note fm = first_match[of i ok ?P, OF i this]
    ultimately show ?thesis using fm(1,2,3) by blast
  qed
  have slot': "FindTextureSlot (load_tag (ok ! i)) s = Inr (int i)"
    if i: "i < length ok" and d: "\<forall>k<i. load_tag (ok ! k) \<noteq> load_tag (ok ! i)" for i
  proof -
    from slot[OF i] obtain j where j: "j \<le> i"
      "FindTextureSlot (load_tag (ok ! i)) s = Inr (int j)"
      "load_tag (ok ! j) = load_tag (ok ! i)" by blast
    from d j(1,3) have "j = i" by (cases "j < i") auto
    with j(2) show ?thesis by simp
  qed
  show ?thesis using run cnt bind slot slot' by blast
qed

theorem BindGLTextures_in_load_order_witness:
  "\<exists>s. CreateGLTextures three_calls (SceneManager_ctor None) = Inr s \<and>
       m_loadedTextures s = 2 \<and>
       BindGLTextures s =
         Inr (emit [glActiveTexture 33984, glBindTexture GL_TEXTURE_2D 1,
                    glActiveTexture 33985, glBindTexture GL_TEXTURE_2D 2] s) \<and>
       FindTextureSlot ''wood'' s = Inr 1"
proof -
  let ?ok = "[(''textures/plastic.jpg'', ''plastic'', Some rgb_image, 1),
      (''textures/wood.jpg'', ''wood'', Some (rgb_image\<lparr>colorChannels := 4\<rparr>), 2 :: 32 word)]"
  have h1: "?ok = filter load_succeeds three_calls" by (simp add: three_calls_ok)
  have h2: "length ?ok \<le> 16" by simp
  from BindGLTextures_in_load_order[OF h1 h2, of None] obtain s where
    s: "CreateGLTextures three_calls (SceneManager_ctor None) = Inr s"
      "m_loadedTextures s = int (length ?ok)"
      "BindGLTextures s =
       Inr (emit (concat (map (\<lambda>i. [glActiveTexture (GL_TEXTURE0 + int i),
                                     glBindTexture GL_TEXTURE_2D (load_ID (?ok ! i))])
                           [0..<length ?ok])) s)"
      "\<forall>i<length ?ok. (\<forall>k<i. load_tag (?ok ! k) \<noteq> load_tag (?ok ! i)) \<longrightarrow>
        FindTextureSlot (load_tag (?ok ! i)) s = Inr (int i)"
    by blast
  have "FindTextureSlot ''wood'' s = Inr 1"
    using s(4)[rule_format, of 1] by (simp add: load_tag_def)
  moreover have "[0..<length ?ok] = [0, 1]" by (simp add: upt_rec)
  ultimately show ?thesis
    using s(1,2,3) by (simp add: GL_TEXTURE0_def load_ID_def)
qed

text \<open>
  C10. After any run of \<^verbatim>\<open>CreateGLTexture\<close> calls on a fresh scene manager, a tag that no
  successful call registered is not found: \<^verbatim>\<open>FindTextureSlot\<close> and \<^verbatim>\<open>FindTextureID\<close> both
  return \<open>-1\<close>.
\<close>

theorem lookups_of_unregistered_tag:
  assumes "CreateGLTextures cs (SceneManager_ctor sh) = Inr s"
    and "tg \<notin> load_tag ` set (filter load_succeeds cs)"
  shows "FindTextureSlot tg s = Inr (- 1) \<and> FindTextureID tg s = Inr (- 1)"
proof -
  note r = CreateGLTextures_registry[OF registry_ok_ctor assms(1)]
  from r have ok: "registry_ok s"
    and reg: "registered s = map registration (filter load_succeeds cs)"
    by (simp_all add: registered_ctor)
  have "find (has_tag tg) (registered s) = None"
    using assms(2) unfolding reg by (auto simp: find_None_iff has_tag_def registration_def)
  then show ?thesis by (simp add: FindTextureSlot_eq[OF ok] FindTextureID_eq[OF ok])
qed

theorem lookups_of_unregistered_tag_witness:
  "\<exists>s. CreateGLTextures three_calls (SceneManager_ctor None) = Inr s \<and>
       FindTextureSlot ''missing'' s = Inr (- 1) \<and> FindTextureID ''missing'' s = Inr (- 1)"
proof -
  have len0: "length (m_textureIDs (SceneManager_ctor None)) = 16"
    and l0: "m_loadedTextures (SceneManager_ctor None) = 0"
    by (simp_all add: SceneManager_ctor_def)
  from CreateGLTextures_defined[OF registry_ok_ctor, of None three_calls] len0 l0
  obtain s where run: "CreateGLTextures three_calls (SceneManager_ctor None) = Inr s"
    by (auto simp: three_calls_ok)
  have h: "''missing'' \<notin> load_tag ` set (filter load_succeeds three_calls)"
    by (simp add: three_calls_ok load_tag_def)
  from lookups_of_unregistered_tag[OF run h] run show ?thesis by blast
qed

section \<open>The claims about the shader's state\<close>

text \<open>
  C5. With a shader manager attached, \<^verbatim>\<open>SetTransformations\<close> makes one call of it:
  \<^verbatim>\<open>setMat4Value\<close> for the uniform \<open>model\<close>, with the product translation, rotation about
  the x axis, rotation about the y axis, rotation about the z axis, scale, multiplied from
  left to right, each angle converted from degrees by \<^verbatim>\<open>glm::radians\<close>. This holds for
  every scale, rotation triple and position, and whatever the functions of GLM compute.
  (With a null shader manager the guarded call is skipped.)
\<close>

theorem SetTransformations_model_matrix:
  assumes "m_pShaderManager s = Some sh"
  shows "SetTransformations G scaleXYZ XrotationDegrees YrotationDegrees ZrotationDegrees positionXYZ s =
     s\<lparr>m_pShaderManager := Some (sh @
       [setMat4Value ''model''
          (glm_mul G
            (glm_mul G
              (glm_mul G
                (glm_mul G (glm_translate G positionXYZ)
                   (glm_rotate G (glm_radians G XrotationDegrees) (vec3 1 0 0)))
                (glm_rotate G (glm_radians G YrotationDegrees) (vec3 0 1 0)))
              (glm_rotate G (glm_radians G ZrotationDegrees) (vec3 0 0 1)))
            (glm_scale G scaleXYZ))])\<rparr>"
  using assms by (simp add: SetTransformations_def Let_def)

theorem SetTransformations_model_matrix_witness:
  "SetTransformations exact_glm (vec3 1 1 1) 90 90 0 (vec3 0 0 0) (SceneManager_ctor (Some [])) =
     (SceneManager_ctor (Some []))\<lparr>m_pShaderManager := Some
        [setMat4Value ''model''
           (mat4 (vec4 0 1 0 0) (vec4 0 0 1 0) (vec4 1 0 0 0) (vec4 0 0 0 1))]\<rparr>"
proof -
  have h: "m_pShaderManager (SceneManager_ctor (Some [])) = Some []"
    by (simp add: SceneManager_ctor_def)
  show ?thesis
    using SetTransformations_model_matrix[OF h, of exact_glm "vec3 1 1 1" 90 90 0 "vec3 0 0 0"]
    by (simp add: exact_glm_def Let_def)
qed

text \<open>
  C9. With a shader manager attached and the count of loaded textures within the array,
  \<^verbatim>\<open>SetShaderTexture\<close> returns normally for every tag after two calls: it sets
  \<open>bUseTexture\<close> to 1 (true) and sets the sampler \<open>objectTexture\<close> to the slot it looked
  up, which is \<open>-1\<close> when no loaded entry has the tag.
\<close>

theorem SetShaderTexture_passes_slot_through:
  assumes "m_pShaderManager s = Some sh" and "registry_ok s"
  shows "\<exists>slot. SetShaderTexture textureTag s =
           Inr (s\<lparr>m_pShaderManager := Some (sh @
             [setIntValue ''bUseTexture'' 1, setSampler2DValue ''objectTexture'' slot])\<rparr>) \<and>
         (textureTag \<notin> TEXTURE_INFO.tag ` set (registered s) \<longrightarrow> slot = - 1)"
proof -
  have "textureTag \<notin> TEXTURE_INFO.tag ` set (registered s) \<Longrightarrow>
        find (has_tag textureTag) (registered s) = None"
    by (auto simp: find_None_iff has_tag_def)
  then show ?thesis
    using assms by (auto simp: SetShaderTexture_def FindTextureSlot_eq)
qed

theorem SetShaderTexture_passes_slot_through_witness:
  "SetShaderTexture ''brick'' (SceneManager_ctor (Some [])) =
     Inr ((SceneManager_ctor (Some []))\<lparr>m_pShaderManager := Some
       [setIntValue ''bUseTexture'' 1, setSampler2DValue ''objectTexture'' (- 1)]\<rparr>)"
proof -
  have h1: "m_pShaderManager (SceneManager_ctor (Some [])) = Some []"
    by (simp add: SceneManager_ctor_def)
  from SetShaderTexture_passes_slot_through[OF h1 registry_ok_ctor, of "''brick''"]
  show ?thesis by (simp add: registered_ctor)
qed

end
